theory Spec2Isabelle
  imports Complex_Main
begin

section \<open>Data model of the cache (src/lib/cache.ts)\<close>

text \<open>
  Numbers that the cache only stores and compares are modelled exactly: epoch
  milliseconds (\<open>Date.now()\<close>, \<open>timestamp\<close>) and app ids are \<open>int\<close>, prices are
  \<open>real\<close>. \<open>null\<close> and \<open>undefined\<close> are \<open>None\<close>.
\<close>

record SteamGame =
  appid :: int
  name :: string
  playtime_forever :: int

text \<open>\<open>MBTIResult = any\<close>: an opaque payload, represented by its serialisation.\<close>

type_synonym MBTIResult = string

text \<open>Element type of the argument of \<open>generateGamesHash\<close>: \<open>{ name: string; hours: number }\<close>.\<close>

record TopGame =
  name :: string
  hours :: int

text \<open>Every stored object carries \<open>timestamp\<close>; three of the four carry \<open>steamId\<close>.\<close>

record Stamped =
  timestamp :: int

record Owned = Stamped +
  steamId :: string

record GamesCache = Owned +
  games :: "SteamGame list"

record PersonalityCache = Owned +
  result :: MBTIResult
  gamesHash :: string

text \<open>
  A truthy value of \<open>data.results\<close> in the answer of \<open>/api/steam/apps\<close>, as
  \<open>fetchAndCacheGameDetails\<close> reads it: \<open>genres\<close> holds the \<open>description\<close> of each
  genre, \<open>price_final\<close> is \<open>price_overview?.final\<close>, \<open>metacritic\<close> the score; a
  missing property is \<open>None\<close>. \<open>error_marker\<close> is the property \<open>_error\<close> that the
  route of a single game (route.ts, lines 82-89 and 116-123) sets on the object it
  returns for a game it could not resolve; \<open>fetchAndCacheGameDetails\<close> never reads it.
\<close>

record RemoteGame =
  genres :: "string list option"
  price_final :: "real option"
  developers :: "string list option"
  metacritic :: "int option"
  error_marker :: "string option"

text \<open>
  \<open>interface GameDetails\<close>. The field \<open>currency\<close> is not declared by the interface in
  cache.ts and is never written by it; \<open>ValueAnalysis.fetchPrices\<close> reads
  \<open>cached.currency\<close> from the stored object, so the model keeps it as an optional
  property (\<open>None\<close> is \<open>undefined\<close>). \<open>metacritic\<close> is the score, when present.
\<close>

record GameDetails = Stamped +
  appid :: int
  genres :: "string list"
  price :: "real option"
  developers :: "string list"
  metacritic :: "int option"
  currency :: "string option"

record UserReview =
  appId :: string
  gameName :: string
  recommended :: bool
  reviewText :: string
  hoursPlayed :: string

record ReviewsCache = Owned +
  reviews :: "UserReview list"
  totalReviews :: int

definition GAMES_CACHE_DURATION :: int where
  "GAMES_CACHE_DURATION = 1000 * 60 * 30"

definition PERSONALITY_CACHE_DURATION :: int where
  "PERSONALITY_CACHE_DURATION = 1000 * 60 * 60 * 24 * 7"

definition GAME_DETAILS_CACHE_DURATION :: int where
  "GAME_DETAILS_CACHE_DURATION = 1000 * 60 * 60 * 24 * 30"

definition REVIEWS_CACHE_DURATION :: int where
  "REVIEWS_CACHE_DURATION = 1000 * 60 * 60 * 24"

section \<open>The Dexie database\<close>

text \<open>
  An object store with an inbound key (\<open>games: "steamId"\<close>, \<open>gameDetails: "appid"\<close>, ...)
  holds at most one object per key and reads the key off the object. It is a list of
  objects with a key function; \<open>put\<close> replaces the object of the same key.
\<close>

definition tbl_get :: "('r \<Rightarrow> 'k) \<Rightarrow> 'k \<Rightarrow> 'r list \<Rightarrow> 'r option" where
  "tbl_get key k t = find (\<lambda>r. key r = k) t"

definition tbl_put :: "('r \<Rightarrow> 'k) \<Rightarrow> 'r \<Rightarrow> 'r list \<Rightarrow> 'r list" where
  "tbl_put key r t = r # filter (\<lambda>x. key x \<noteq> key r) t"

definition tbl_delete :: "('r \<Rightarrow> 'k) \<Rightarrow> 'k \<Rightarrow> 'r list \<Rightarrow> 'r list" where
  "tbl_delete key k t = filter (\<lambda>x. key x \<noteq> k) t"

definition tbl_bulkGet :: "('r \<Rightarrow> 'k) \<Rightarrow> 'k list \<Rightarrow> 'r list \<Rightarrow> 'r option list" where
  "tbl_bulkGet key ks t = map (\<lambda>k. tbl_get key k t) ks"

definition tbl_bulkPut :: "('r \<Rightarrow> 'k) \<Rightarrow> 'r list \<Rightarrow> 'r list \<Rightarrow> 'r list" where
  "tbl_bulkPut key rs t = foldl (\<lambda>t r. tbl_put key r t) t rs"

datatype storeName = GamesStore | PersonalityStore | GameDetailsStore | ReviewsStore

text \<open>The storage calls a function issues; bulk calls record how many keys they carry.\<close>

datatype dbOp = OpGet | OpPut | OpDelete | OpBulkGet nat | OpBulkPut nat

datatype error =
  StorageError | TransportError | ParseError | TypeError | MaxRetriesExceeded

text \<open>
  The state outside the functions: the four object stores of \<open>SteamStatsDB\<close>
  (\<open>db.games\<close>, \<open>db.personality\<close>, \<open>db.gameDetails\<close>, \<open>db.reviews\<close>), the storage
  calls issued so far, which of the storage calls reject (\<open>dbFaults n\<close>: the call
  number \<open>n\<close> throws), and the bodies of the requests posted to \<open>/api/steam/apps\<close>.
\<close>

record World =
  games_tbl :: "GamesCache list"
  personality_tbl :: "PersonalityCache list"
  gameDetails_tbl :: "GameDetails list"
  reviews_tbl :: "ReviewsCache list"
  dbCalls :: "(storeName \<times> dbOp) list"
  dbFaults :: "nat \<Rightarrow> bool"
  posts :: "int list list"

type_synonym 'a io = "(error + 'a) \<times> World"

text \<open>A storage call that reads: logged, then it throws or yields its value.\<close>

definition db_read :: "storeName \<times> dbOp \<Rightarrow> (World \<Rightarrow> 'a) \<Rightarrow> World \<Rightarrow> 'a io" where
  "db_read c f w =
     (if dbFaults w (length (dbCalls w))
      then (Inl StorageError, w\<lparr>dbCalls := dbCalls w @ [c]\<rparr>)
      else (Inr (f w), w\<lparr>dbCalls := dbCalls w @ [c]\<rparr>))"

text \<open>A storage call that writes: logged, then it throws or changes the stores.\<close>

definition db_write :: "storeName \<times> dbOp \<Rightarrow> (World \<Rightarrow> World) \<Rightarrow> World \<Rightarrow> unit io" where
  "db_write c f w =
     (if dbFaults w (length (dbCalls w))
      then (Inl StorageError, w\<lparr>dbCalls := dbCalls w @ [c]\<rparr>)
      else (Inr (), (f w)\<lparr>dbCalls := dbCalls w @ [c]\<rparr>))"

text \<open>\<open>try { m } catch (error) { h }\<close>.\<close>

definition try_catch :: "'a io \<Rightarrow> (error \<Rightarrow> World \<Rightarrow> 'a io) \<Rightarrow> 'a io" where
  "try_catch m h = (case m of (Inl e, w) \<Rightarrow> h e w | (Inr v, w) \<Rightarrow> (Inr v, w))"

text \<open>\<open>await m; k\<close>: an exception of \<open>m\<close> skips \<open>k\<close>.\<close>

definition and_then :: "'a io \<Rightarrow> ('a \<Rightarrow> World \<Rightarrow> 'b io) \<Rightarrow> 'b io" where
  "and_then m k = (case m of (Inl e, w) \<Rightarrow> (Inl e, w) | (Inr v, w) \<Rightarrow> k v w)"

definition healthy :: "World \<Rightarrow> bool" where
  "healthy w = (\<forall>n. \<not> dbFaults w n)"

section \<open>Games cache\<close>

text \<open>\<open>now\<close> is the value \<open>Date.now()\<close> returns inside the function.\<close>

definition getCachedGames :: "int \<Rightarrow> string \<Rightarrow> World \<Rightarrow> SteamGame list option io" where
  "getCachedGames now sid w =
     try_catch
       (and_then (db_read (GamesStore, OpGet) (\<lambda>w. tbl_get steamId sid (games_tbl w)) w)
          (\<lambda>cached w1. case cached of
               None \<Rightarrow> (Inr None, w1)
             | Some c \<Rightarrow>
                 if now - timestamp c > GAMES_CACHE_DURATION
                 then and_then
                        (db_write (GamesStore, OpDelete)
                           (\<lambda>w. w\<lparr>games_tbl := tbl_delete steamId sid (games_tbl w)\<rparr>) w1)
                        (\<lambda>_ w2. (Inr None, w2))
                 else (Inr (Some (games c)), w1)))
       (\<lambda>e w'. (Inr None, w'))"

definition setCachedGames :: "int \<Rightarrow> string \<Rightarrow> SteamGame list \<Rightarrow> World \<Rightarrow> unit io" where
  "setCachedGames now sid gs w =
     try_catch
       (db_write (GamesStore, OpPut)
          (\<lambda>w. w\<lparr>games_tbl :=
                   tbl_put steamId \<lparr>timestamp = now, steamId = sid, games = gs\<rparr> (games_tbl w)\<rparr>) w)
       (\<lambda>e w'. (Inr (), w'))"

section \<open>Personality cache\<close>

text \<open>
  \<open>`${g.hours}`\<close>: the callers compute \<open>hours\<close> with \<open>Math.round\<close>; for a whole number
  the template prints its decimal digits, with \<open>-\<close> for a negative one.
\<close>

fun digits_of :: "nat \<Rightarrow> string" where
  "digits_of n =
     (if n < 10 then [char_of (48 + n)] else digits_of (n div 10) @ [char_of (48 + n mod 10)])"

definition number_toString :: "int \<Rightarrow> string" where
  "number_toString i = (if i < 0 then CHR ''-'' # digits_of (nat (- i)) else digits_of (nat i))"

text \<open>\<open>Array.prototype.join\<close>.\<close>

fun join :: "string \<Rightarrow> string list \<Rightarrow> string" where
  "join sep [] = []"
| "join sep [x] = x"
| "join sep (x # y # ys) = x @ sep @ join sep (y # ys)"

definition generateGamesHash :: "TopGame list \<Rightarrow> string" where
  "generateGamesHash gs =
     join ''|'' (map (\<lambda>g. name g @ '':'' @ number_toString (hours g)) (take 10 gs))"

definition getCachedPersonality ::
  "int \<Rightarrow> string \<Rightarrow> string \<Rightarrow> World \<Rightarrow> MBTIResult option io" where
  "getCachedPersonality now sid currentGamesHash w =
     try_catch
       (and_then
          (db_read (PersonalityStore, OpGet) (\<lambda>w. tbl_get steamId sid (personality_tbl w)) w)
          (\<lambda>cached w1. case cached of
               None \<Rightarrow> (Inr None, w1)
             | Some c \<Rightarrow>
                 if now - timestamp c > PERSONALITY_CACHE_DURATION
                 then and_then
                        (db_write (PersonalityStore, OpDelete)
                           (\<lambda>w. w\<lparr>personality_tbl := tbl_delete steamId sid (personality_tbl w)\<rparr>)
                           w1)
                        (\<lambda>_ w2. (Inr None, w2))
                 else if gamesHash c \<noteq> currentGamesHash
                 then and_then
                        (db_write (PersonalityStore, OpDelete)
                           (\<lambda>w. w\<lparr>personality_tbl := tbl_delete steamId sid (personality_tbl w)\<rparr>)
                           w1)
                        (\<lambda>_ w2. (Inr None, w2))
                 else (Inr (Some (result c)), w1)))
       (\<lambda>e w'. (Inr None, w'))"

definition setCachedPersonality ::
  "int \<Rightarrow> string \<Rightarrow> MBTIResult \<Rightarrow> TopGame list \<Rightarrow> World \<Rightarrow> unit io" where
  "setCachedPersonality now sid res topGames w =
     try_catch
       (db_write (PersonalityStore, OpPut)
          (\<lambda>w. w\<lparr>personality_tbl :=
                   tbl_put steamId
                     \<lparr>timestamp = now, steamId = sid, result = res,
                      gamesHash = generateGamesHash topGames\<rparr>
                     (personality_tbl w)\<rparr>) w)
       (\<lambda>e w'. (Inr (), w'))"

section \<open>Game details cache\<close>

definition getCachedGameDetails :: "int \<Rightarrow> int \<Rightarrow> World \<Rightarrow> GameDetails option io" where
  "getCachedGameDetails now aid w =
     try_catch
       (and_then
          (db_read (GameDetailsStore, OpGet) (\<lambda>w. tbl_get appid aid (gameDetails_tbl w)) w)
          (\<lambda>cached w1. case cached of
               None \<Rightarrow> (Inr None, w1)
             | Some c \<Rightarrow>
                 if now - timestamp c > GAME_DETAILS_CACHE_DURATION
                 then and_then
                        (db_write (GameDetailsStore, OpDelete)
                           (\<lambda>w. w\<lparr>gameDetails_tbl := tbl_delete appid aid (gameDetails_tbl w)\<rparr>)
                           w1)
                        (\<lambda>_ w2. (Inr None, w2))
                 else (Inr (Some c), w1)))
       (\<lambda>e w'. (Inr None, w'))"

text \<open>The five-parameter writer of cache.ts: the stored object has no \<open>currency\<close>.\<close>

definition setCachedGameDetails ::
  "int \<Rightarrow> int \<Rightarrow> string list \<Rightarrow> real option \<Rightarrow> string list \<Rightarrow> int option \<Rightarrow> World \<Rightarrow> unit io"
  where
  "setCachedGameDetails now aid gs p devs mc w =
     try_catch
       (db_write (GameDetailsStore, OpPut)
          (\<lambda>w. w\<lparr>gameDetails_tbl :=
                   tbl_put appid
                     \<lparr>timestamp = now, appid = aid, genres = gs, price = p, developers = devs,
                      metacritic = mc, currency = None\<rparr>
                     (gameDetails_tbl w)\<rparr>) w)
       (\<lambda>e w'. (Inr (), w'))"

text \<open>
  \<open>getCachedGameDetailsMany\<close>: the \<open>Map\<close> is created before the \<open>try\<close> and returned after
  it, so a rejected \<open>bulkGet\<close> leaves it empty. \<open>forEach\<close> is the fold \<open>collectFresh\<close>.
\<close>

definition collectFresh ::
  "int \<Rightarrow> GameDetails option list \<Rightarrow> (int \<rightharpoonup> GameDetails) \<Rightarrow> (int \<rightharpoonup> GameDetails)" where
  "collectFresh now cached m =
     foldl (\<lambda>m item. case item of
                None \<Rightarrow> m
              | Some it \<Rightarrow>
                  if now - timestamp it < GAME_DETAILS_CACHE_DURATION then m(appid it \<mapsto> it) else m)
       m cached"

definition getCachedGameDetailsMany ::
  "int \<Rightarrow> int list \<Rightarrow> World \<Rightarrow> (int \<rightharpoonup> GameDetails) io" where
  "getCachedGameDetailsMany now appids w =
     try_catch
       (and_then
          (db_read (GameDetailsStore, OpBulkGet (length appids))
             (\<lambda>w. tbl_bulkGet appid appids (gameDetails_tbl w)) w)
          (\<lambda>cached w1. (Inr (collectFresh now cached Map.empty), w1)))
       (\<lambda>e w'. (Inr Map.empty, w'))"

section \<open>Reviews cache\<close>

definition getCachedReviews ::
  "int \<Rightarrow> string \<Rightarrow> World \<Rightarrow> (UserReview list \<times> int) option io" where
  "getCachedReviews now sid w =
     try_catch
       (and_then (db_read (ReviewsStore, OpGet) (\<lambda>w. tbl_get steamId sid (reviews_tbl w)) w)
          (\<lambda>cached w1. case cached of
               None \<Rightarrow> (Inr None, w1)
             | Some c \<Rightarrow>
                 if now - timestamp c > REVIEWS_CACHE_DURATION
                 then and_then
                        (db_write (ReviewsStore, OpDelete)
                           (\<lambda>w. w\<lparr>reviews_tbl := tbl_delete steamId sid (reviews_tbl w)\<rparr>) w1)
                        (\<lambda>_ w2. (Inr None, w2))
                 else (Inr (Some (reviews c, totalReviews c)), w1)))
       (\<lambda>e w'. (Inr None, w'))"

definition setCachedReviews ::
  "int \<Rightarrow> string \<Rightarrow> UserReview list \<Rightarrow> int \<Rightarrow> World \<Rightarrow> unit io" where
  "setCachedReviews now sid rs n w =
     try_catch
       (db_write (ReviewsStore, OpPut)
          (\<lambda>w. w\<lparr>reviews_tbl :=
                   tbl_put steamId
                     \<lparr>timestamp = now, steamId = sid, reviews = rs, totalReviews = n\<rparr>
                     (reviews_tbl w)\<rparr>) w)
       (\<lambda>e w'. (Inr (), w'))"

text \<open>
  The guard of \<open>ValueAnalysis.fetchPrices\<close> on what \<open>getCachedGameDetails\<close> returned:
  \<open>cached && cached.price !== undefined && cached.price !== null && cached.currency\<close>.
  When it fails the caller fetches the game again.
\<close>

definition fetchPrices_usesCache :: "GameDetails option \<Rightarrow> bool" where
  "fetchPrices_usesCache cached =
     (case cached of
        None \<Rightarrow> False
      | Some c \<Rightarrow> price c \<noteq> None \<and> (case currency c of None \<Rightarrow> False | Some s \<Rightarrow> s \<noteq> []))"

section \<open>Batch enrichment (fetchAndCacheGameDetails)\<close>

text \<open>
  What \<open>fetch\<close> does: it rejects, or it resolves to a response with a status and a body.
  The body does not parse, or parses to \<open>data\<close>, whose \<open>results\<close> is missing (\<open>None\<close>) or
  is the list \<open>Object.entries\<close> gives. The route \<open>/api/steam/apps\<close> is not part of the
  sources; the keys of \<open>results\<close> are taken to be decimal app ids, so that
  \<open>parseInt(appidStr)\<close> is the id and an entry is the pair of the id and the value
  (\<open>None\<close> a falsy one).
\<close>

datatype responseBody =
  Unparsable | Json "(int \<times> RemoteGame option) list option"

datatype fetchOutcome = NetworkFailure | HttpResponse int responseBody

definition response_ok :: "int \<Rightarrow> bool" where
  "response_ok status = (200 \<le> status \<and> status \<le> 299)"

text \<open>The object literal \<open>details\<close>; \<open>x || y\<close> is \<open>y\<close> when \<open>x\<close> is missing, zero or empty.\<close>

definition detailsOf :: "int \<Rightarrow> int \<Rightarrow> RemoteGame \<Rightarrow> GameDetails" where
  "detailsOf now aid game =
     \<lparr>timestamp = now, appid = aid,
      genres = (case RemoteGame.genres game of None \<Rightarrow> [] | Some gs \<Rightarrow> gs),
      price = (case price_final game of None \<Rightarrow> None | Some f \<Rightarrow> if f = 0 then None else Some f),
      developers = (case RemoteGame.developers game of None \<Rightarrow> [] | Some ds \<Rightarrow> ds),
      metacritic = RemoteGame.metacritic game,
      currency = None\<rparr>"

text \<open>The loop over the entries: it fills \<open>toCache\<close> and sets the keys of \<open>cached\<close>.\<close>

fun prepareBatch ::
  "int \<Rightarrow> (int \<times> RemoteGame option) list \<Rightarrow> GameDetails list \<times> (int \<rightharpoonup> GameDetails)
     \<Rightarrow> GameDetails list \<times> (int \<rightharpoonup> GameDetails)" where
  "prepareBatch now [] acc = acc"
| "prepareBatch now ((aid, None) # es) acc = prepareBatch now es acc"
| "prepareBatch now ((aid, Some game) # es) (toCache, cached) =
     prepareBatch now es (toCache @ [detailsOf now aid game], cached(aid \<mapsto> detailsOf now aid game))"

text \<open>
  The \<open>try\<close> block. \<open>cached\<close> is a \<open>Map\<close> that the block mutates and that is returned
  after the \<open>catch\<close>, so the block yields the map as it stands when it ends or throws.
  \<open>now\<close> is the \<open>Date.now()\<close> of the block, \<open>remote\<close> what the endpoint does with a
  request for the given ids.
\<close>

definition batchFetch ::
  "int \<Rightarrow> (int list \<Rightarrow> fetchOutcome) \<Rightarrow> int list \<Rightarrow> (int \<rightharpoonup> GameDetails) \<Rightarrow> World
     \<Rightarrow> (error + unit) \<times> (int \<rightharpoonup> GameDetails) \<times> World" where
  "batchFetch now remote uncachedAppids cached w =
     (let w1 = w\<lparr>posts := posts w @ [uncachedAppids]\<rparr> in
      case remote uncachedAppids of
        NetworkFailure \<Rightarrow> (Inl TransportError, cached, w1)
      | HttpResponse status body \<Rightarrow>
          if \<not> response_ok status then (Inr (), cached, w1)
          else (case body of
                  Unparsable \<Rightarrow> (Inl ParseError, cached, w1)
                | Json None \<Rightarrow> (Inl TypeError, cached, w1)
                | Json (Some entries) \<Rightarrow>
                    (case prepareBatch now entries ([], cached) of
                       (toCache, cached') \<Rightarrow>
                         if length toCache > 0
                         then (case db_write (GameDetailsStore, OpBulkPut (length toCache))
                                      (\<lambda>w. w\<lparr>gameDetails_tbl :=
                                               tbl_bulkPut appid toCache (gameDetails_tbl w)\<rparr>) w1 of
                                 (Inl e, w2) \<Rightarrow> (Inl e, cached', w2)
                               | (Inr u, w2) \<Rightarrow> (Inr (), cached', w2))
                         else (Inr (), cached', w1))))"

text \<open>
  \<open>now1\<close> is the \<open>Date.now()\<close> of \<open>getCachedGameDetailsMany\<close>, \<open>now2\<close> the one taken
  after the response. The \<open>catch\<close> only logs; both ways out return \<open>cached\<close>.
\<close>

definition fetchAndCacheGameDetails ::
  "int \<Rightarrow> int \<Rightarrow> (int list \<Rightarrow> fetchOutcome) \<Rightarrow> int list \<Rightarrow> World
     \<Rightarrow> (int \<rightharpoonup> GameDetails) io" where
  "fetchAndCacheGameDetails now1 now2 remote appids w =
     and_then (getCachedGameDetailsMany now1 appids w)
       (\<lambda>cached w1.
          let uncachedAppids = filter (\<lambda>id. cached id = None) appids in
          if length uncachedAppids = 0 then (Inr cached, w1)
          else (case batchFetch now2 remote uncachedAppids cached w1 of
                  (r, cached', w2) \<Rightarrow> (Inr cached', w2)))"

text \<open>
  Words for what a request came to. \<open>requestFailed\<close>: the fetch rejected, the status
  was not a success, or the body did not parse or had no \<open>results\<close>. \<open>resolvedBy\<close>:
  the ids for which a successful answer carries data. \<open>freshGet\<close>: the stored record
  of an id, if the batch read counts it as a hit.
\<close>

definition requestFailed :: "fetchOutcome \<Rightarrow> bool" where
  "requestFailed out =
     (case out of
        NetworkFailure \<Rightarrow> True
      | HttpResponse status body \<Rightarrow>
          \<not> response_ok status \<or> (case body of Unparsable \<Rightarrow> True | Json res \<Rightarrow> res = None))"

definition resolvedIds :: "(int \<times> RemoteGame option) list \<Rightarrow> int list" where
  "resolvedIds entries = map fst (filter (\<lambda>e. snd e \<noteq> None) entries)"

definition resolvedBy :: "fetchOutcome \<Rightarrow> int list" where
  "resolvedBy out =
     (case out of
        NetworkFailure \<Rightarrow> []
      | HttpResponse status body \<Rightarrow>
          if response_ok status
          then (case body of Json (Some entries) \<Rightarrow> resolvedIds entries | _ \<Rightarrow> [])
          else [])"

definition freshGet :: "int \<Rightarrow> GameDetails list \<Rightarrow> int \<Rightarrow> GameDetails option" where
  "freshGet now t k =
     (case tbl_get appid k t of
        None \<Rightarrow> None
      | Some it \<Rightarrow> if now - timestamp it < GAME_DETAILS_CACHE_DURATION then Some it else None)"

section \<open>Rate-limited fetcher (src/app/api/steam/app/[appid]/route.ts)\<close>

definition MIN_REQUEST_INTERVAL :: int where
  "MIN_REQUEST_INTERVAL = 500"

definition maxRetries :: nat where
  "maxRetries = 2"

text \<open>What the function does to the outside, in order: timers it awaits, requests it sends.\<close>

datatype event = Sleep int | Fetch

text \<open>
  The \<open>for\<close> loop. \<open>server n\<close> is what the fetch of attempt \<open>n\<close> does; \<open>delay\<close> and the
  events so far are the loop state. The \<open>throw\<close> after the loop is the last branch.
\<close>

function retryLoop ::
  "(nat \<Rightarrow> fetchOutcome) \<Rightarrow> nat \<Rightarrow> int \<Rightarrow> event list
     \<Rightarrow> (error + int \<times> responseBody) \<times> event list" where
  "retryLoop server attempt delay tr =
     (if attempt \<le> maxRetries
      then (case server attempt of
              NetworkFailure \<Rightarrow> (Inl TransportError, tr @ [Fetch])
            | HttpResponse status body \<Rightarrow>
                if response_ok status then (Inr (status, body), tr @ [Fetch])
                else if (status = 403 \<or> status = 429) \<and> attempt < maxRetries
                then retryLoop server (attempt + 1) (delay * 2) (tr @ [Fetch, Sleep delay])
                else (Inr (status, body), tr @ [Fetch]))
      else (Inl MaxRetriesExceeded, tr))"
  by pat_completeness auto
termination
  by (relation "measure (\<lambda>(server, attempt, delay, tr). Suc maxRetries - attempt)") auto

text \<open>
  \<open>now\<close> and \<open>now'\<close> are the two readings of \<open>Date.now()\<close>; the result carries the new
  \<open>lastRequestTime\<close> and the events.
\<close>

definition fetchWithRateLimit ::
  "int \<Rightarrow> int \<Rightarrow> int \<Rightarrow> (nat \<Rightarrow> fetchOutcome)
     \<Rightarrow> (error + int \<times> responseBody) \<times> int \<times> event list" where
  "fetchWithRateLimit lastRequestTime now now' server =
     (let timeSinceLastRequest = now - lastRequestTime;
          tr = (if timeSinceLastRequest < MIN_REQUEST_INTERVAL
                then [Sleep (MIN_REQUEST_INTERVAL - timeSinceLastRequest)] else []);
          (r, tr') = retryLoop server 0 2000 tr
      in (r, now', tr'))"

text \<open>
  Words for the retry policy: a response is \<open>throttled\<close> when its status is 403 or
  429; \<open>delivered\<close> is what the caller gets when the function stops at an outcome (the
  response, or the exception of a fetch that rejected); \<open>pacing\<close> is the wait before the
  first request.
\<close>

definition throttled :: "fetchOutcome \<Rightarrow> bool" where
  "throttled out =
     (case out of NetworkFailure \<Rightarrow> False | HttpResponse status body \<Rightarrow> status = 403 \<or> status = 429)"

definition delivered :: "fetchOutcome \<Rightarrow> error + int \<times> responseBody" where
  "delivered out =
     (case out of NetworkFailure \<Rightarrow> Inl TransportError | HttpResponse status body \<Rightarrow> Inr (status, body))"

definition pacing :: "int \<Rightarrow> int \<Rightarrow> event list" where
  "pacing lastRequestTime now =
     (if now - lastRequestTime < MIN_REQUEST_INTERVAL
      then [Sleep (MIN_REQUEST_INTERVAL - (now - lastRequestTime))] else [])"

section \<open>Example states\<close>

definition emptyWorld :: World where
  "emptyWorld = \<lparr>games_tbl = [], personality_tbl = [], gameDetails_tbl = [], reviews_tbl = [],
                  dbCalls = [], dbFaults = (\<lambda>n. False), posts = []\<rparr>"

definition legacyDetails :: GameDetails where
  "legacyDetails = \<lparr>timestamp = 0, appid = 42, genres = [''RPG''], price = Some 999,
                     developers = [''X''], metacritic = None, currency = None\<rparr>"

definition legacyWorld :: World where
  "legacyWorld = snd (setCachedGameDetails 0 42 [''RPG''] (Some 999) [''X''] None emptyWorld)"

definition staleWorld :: World where
  "staleWorld = emptyWorld
     \<lparr>games_tbl := [\<lparr>timestamp = 0, steamId = ''u'', games = []\<rparr>],
      personality_tbl := [\<lparr>timestamp = 0, steamId = ''u'', result = ''INTJ'', gamesHash = ''Doom:10''\<rparr>],
      gameDetails_tbl := [legacyDetails],
      reviews_tbl := [\<lparr>timestamp = 0, steamId = ''u'', reviews = [], totalReviews = 0\<rparr>]\<rparr>"

definition tenGames :: "TopGame list" where
  "tenGames = [\<lparr>name = ''A'', hours = 120\<rparr>, \<lparr>name = ''B'', hours = 90\<rparr>,
     \<lparr>name = ''C'', hours = 80\<rparr>, \<lparr>name = ''D'', hours = 70\<rparr>, \<lparr>name = ''E'', hours = 60\<rparr>,
     \<lparr>name = ''F'', hours = 50\<rparr>, \<lparr>name = ''G'', hours = 40\<rparr>, \<lparr>name = ''H'', hours = 30\<rparr>,
     \<lparr>name = ''I'', hours = 20\<rparr>, \<lparr>name = ''J'', hours = 7\<rparr>]"

definition sampleGame :: RemoteGame where
  "sampleGame = \<lparr>RemoteGame.genres = Some [''RPG''], price_final = Some 999, developers = Some [''X''],
                  metacritic = None, error_marker = None\<rparr>"

definition partialRemote :: "int list \<Rightarrow> fetchOutcome" where
  "partialRemote ids = HttpResponse 200 (Json (Some [(1, Some sampleGame), (2, None), (3, Some sampleGame)]))"

definition failingRemote :: "int list \<Rightarrow> fetchOutcome" where
  "failingRemote ids = HttpResponse 503 Unparsable"

definition fetched :: "int \<Rightarrow> int \<Rightarrow> GameDetails" where
  "fetched now aid = \<lparr>timestamp = now, appid = aid, genres = [''RPG''], price = Some 999,
                       developers = [''X''], metacritic = None, currency = None\<rparr>"

definition afterFirstCall :: World where
  "afterFirstCall = emptyWorld
     \<lparr>gameDetails_tbl := [fetched 5 3, fetched 5 1],
      dbCalls := [(GameDetailsStore, OpBulkGet 3), (GameDetailsStore, OpBulkPut 2)],
      posts := [[1, 2, 3]]\<rparr>"

definition alwaysThrottling :: "nat \<Rightarrow> fetchOutcome" where
  "alwaysThrottling n = HttpResponse 429 Unparsable"

definition serverError :: "nat \<Rightarrow> fetchOutcome" where
  "serverError n = HttpResponse 500 Unparsable"

definition rejecting :: "World \<Rightarrow> World" where
  "rejecting w = w\<lparr>dbFaults := (\<lambda>n. True)\<rparr>"

definition rejectingSecond :: "World \<Rightarrow> World" where
  "rejectingSecond w = w\<lparr>dbFaults := (\<lambda>n. n = Suc (length (dbCalls w)))\<rparr>"

definition storedPersonality :: PersonalityCache where
  "storedPersonality = \<lparr>timestamp = 0, steamId = ''u'', result = ''INTJ'', gamesHash = ''Doom:10''\<rparr>"



section \<open>Storage lemmas\<close>

lemma tbl_get_delete:
  "tbl_get key k (tbl_delete key k' t) = (if k = k' then None else tbl_get key k t)"
  unfolding tbl_get_def tbl_delete_def by (induction t) auto

lemma tbl_get_put:
  "tbl_get key k (tbl_put key r t) = (if key r = k then Some r else tbl_get key k t)"
  unfolding tbl_get_def tbl_put_def by (induction t) auto

lemma tbl_get_key: "tbl_get key k t = Some r \<Longrightarrow> key r = k"
  unfolding tbl_get_def by (induction t) (auto split: if_splits)

lemma healthy_calls [simp]: "healthy (w\<lparr>dbCalls := cs\<rparr>) = healthy w"
  by (simp add: healthy_def)

lemma db_read_healthy:
  "healthy w \<Longrightarrow> db_read c f w = (Inr (f w), w\<lparr>dbCalls := dbCalls w @ [c]\<rparr>)"
  by (simp add: db_read_def healthy_def)

lemma db_write_healthy:
  "healthy w \<Longrightarrow> db_write c f w = (Inr (), (f w)\<lparr>dbCalls := dbCalls w @ [c]\<rparr>)"
  by (simp add: db_write_def healthy_def)

lemma getCachedGameDetails_fresh:
  assumes "healthy w" and "tbl_get appid aid (gameDetails_tbl w) = Some c"
    and "\<not> now - timestamp c > GAME_DETAILS_CACHE_DURATION"
  shows "getCachedGameDetails now aid w =
           (Inr (Some c), w\<lparr>dbCalls := dbCalls w @ [(GameDetailsStore, OpGet)]\<rparr>)"
  using assms
  by (simp add: getCachedGameDetails_def db_read_healthy try_catch_def and_then_def)

lemma getCachedGameDetails_expired:
  assumes "healthy w" and "tbl_get appid aid (gameDetails_tbl w) = Some c"
    and "now - timestamp c > GAME_DETAILS_CACHE_DURATION"
  shows "getCachedGameDetails now aid w =
           (Inr None, w\<lparr>gameDetails_tbl := tbl_delete appid aid (gameDetails_tbl w),
                        dbCalls := dbCalls w @ [(GameDetailsStore, OpGet), (GameDetailsStore, OpDelete)]\<rparr>)"
  using assms
  by (simp add: getCachedGameDetails_def db_read_healthy db_write_healthy try_catch_def and_then_def)

lemma healthy_emptyWorld: "healthy emptyWorld"
  by (simp add: healthy_def emptyWorld_def)

lemma legacyWorld_eq:
  "legacyWorld = emptyWorld\<lparr>gameDetails_tbl := [legacyDetails], dbCalls := [(GameDetailsStore, OpPut)]\<rparr>"
  by (simp add: legacyWorld_def setCachedGameDetails_def try_catch_def db_write_def emptyWorld_def
      tbl_put_def legacyDetails_def)

lemma healthy_legacyWorld: "healthy legacyWorld"
  by (simp add: legacyWorld_eq healthy_def emptyWorld_def)

lemma healthy_staleWorld: "healthy staleWorld"
  by (simp add: staleWorld_def healthy_def emptyWorld_def)


section \<open>Properties of the cache accessors\<close>

text \<open>
  The claim C1 as stated fails: a record written without a currency, with a price,
  read before its expiry, is returned by \<open>getCachedGameDetails\<close>.
\<close>

theorem getCachedGameDetails_legacy_counterexample:
  "price legacyDetails \<noteq> None \<and> currency legacyDetails = None \<and>
   tbl_get appid 42 (gameDetails_tbl legacyWorld) = Some legacyDetails \<and>
   1000 - timestamp legacyDetails \<le> GAME_DETAILS_CACHE_DURATION \<and>
   fst (getCachedGameDetails 1000 42 legacyWorld) = Inr (Some legacyDetails)"
  by (simp add: legacyWorld_eq emptyWorld_def legacyDetails_def tbl_get_def
      GAME_DETAILS_CACHE_DURATION_def getCachedGameDetails_def try_catch_def and_then_def
      db_read_def)

text \<open>
  C1, amended. When the storage calls do not reject, a stored game-details record
  that has a price, has no currency marker and is not expired is returned by
  \<open>getCachedGameDetails\<close> as it is: the function has no currency check. The check is
  the caller's: the guard of \<open>ValueAnalysis.fetchPrices\<close> refuses such a record.
\<close>

theorem getCachedGameDetails_ignores_currency:
  assumes "healthy w" and "tbl_get appid aid (gameDetails_tbl w) = Some c"
    and "price c \<noteq> None" and "currency c = None"
    and "now - timestamp c \<le> GAME_DETAILS_CACHE_DURATION"
  shows "fst (getCachedGameDetails now aid w) = Inr (Some c) \<and>
         \<not> fetchPrices_usesCache (Some c)"
proof -
  have "\<not> now - timestamp c > GAME_DETAILS_CACHE_DURATION" using assms(5) by simp
  then have "fst (getCachedGameDetails now aid w) = Inr (Some c)"
    using getCachedGameDetails_fresh [OF assms(1,2)] by simp
  moreover have "\<not> fetchPrices_usesCache (Some c)"
    using assms(4) by (simp add: fetchPrices_usesCache_def)
  ultimately show ?thesis by simp
qed

theorem getCachedGameDetails_ignores_currency_witness:
  "fst (getCachedGameDetails 1000 42 legacyWorld) = Inr (Some legacyDetails) \<and>
   \<not> fetchPrices_usesCache (Some legacyDetails)"
proof -
  have a: "tbl_get appid 42 (gameDetails_tbl legacyWorld) = Some legacyDetails"
    by (simp add: legacyWorld_eq tbl_get_def legacyDetails_def)
  have b: "price legacyDetails \<noteq> None" and c: "currency legacyDetails = None"
    by (simp_all add: legacyDetails_def)
  have d: "1000 - timestamp legacyDetails \<le> GAME_DETAILS_CACHE_DURATION"
    by (simp add: legacyDetails_def GAME_DETAILS_CACHE_DURATION_def)
  show ?thesis
    using getCachedGameDetails_ignores_currency [OF healthy_legacyWorld a b c d] .
qed

lemma getCachedPersonality_hit:
  assumes "healthy w" and "tbl_get steamId sid (personality_tbl w) = Some c"
    and "\<not> now - timestamp c > PERSONALITY_CACHE_DURATION" and "gamesHash c = h"
  shows "getCachedPersonality now sid h w =
           (Inr (Some (result c)), w\<lparr>dbCalls := dbCalls w @ [(PersonalityStore, OpGet)]\<rparr>)"
  using assms
  by (simp add: getCachedPersonality_def db_read_healthy try_catch_def and_then_def)

lemma getCachedPersonality_drop:
  assumes "healthy w" and "tbl_get steamId sid (personality_tbl w) = Some c"
    and "now - timestamp c > PERSONALITY_CACHE_DURATION \<or> gamesHash c \<noteq> h"
  shows "getCachedPersonality now sid h w =
           (Inr None, w\<lparr>personality_tbl := tbl_delete steamId sid (personality_tbl w),
                        dbCalls := dbCalls w @ [(PersonalityStore, OpGet), (PersonalityStore, OpDelete)]\<rparr>)"
  using assms
  by (auto simp add: getCachedPersonality_def db_read_healthy db_write_healthy try_catch_def
      and_then_def)

text \<open>
  C2, amended. When the storage calls do not reject: for a stored personality record
  that is not expired, \<open>getCachedPersonality\<close> returns the stored result exactly when
  the hash passed in equals the stored \<open>gamesHash\<close>; when the hashes differ it returns
  \<open>null\<close> and the record is gone from the store afterwards.
\<close>

theorem getCachedPersonality_fingerprint:
  assumes "healthy w" and "tbl_get steamId sid (personality_tbl w) = Some c"
    and "now - timestamp c \<le> PERSONALITY_CACHE_DURATION"
  shows "((fst (getCachedPersonality now sid h w) = Inr (Some (result c))) = (h = gamesHash c)) \<and>
         (h \<noteq> gamesHash c \<longrightarrow>
            fst (getCachedPersonality now sid h w) = Inr None \<and>
            tbl_get steamId sid (personality_tbl (snd (getCachedPersonality now sid h w))) = None)"
proof (cases "h = gamesHash c")
  case True
  have "\<not> now - timestamp c > PERSONALITY_CACHE_DURATION" using assms(3) by simp
  then show ?thesis
    using True getCachedPersonality_hit [OF assms(1,2), of now h] by simp
next
  case False
  then have "now - timestamp c > PERSONALITY_CACHE_DURATION \<or> gamesHash c \<noteq> h" by auto
  then show ?thesis
    using False getCachedPersonality_drop [OF assms(1,2), of now h]
    by (simp add: tbl_get_delete)
qed

theorem getCachedPersonality_fingerprint_witness:
  "fst (getCachedPersonality 1000 ''u'' ''Doom:10'' staleWorld) = Inr (Some ''INTJ'') \<and>
   fst (getCachedPersonality 1000 ''u'' ''Doom:11'' staleWorld) = Inr None \<and>
   tbl_get steamId ''u''
     (personality_tbl (snd (getCachedPersonality 1000 ''u'' ''Doom:11'' staleWorld))) = None"
proof -
  let ?c = "\<lparr>timestamp = 0, steamId = ''u'', result = ''INTJ'', gamesHash = ''Doom:10''\<rparr>"
  have a: "tbl_get steamId ''u'' (personality_tbl staleWorld) = Some ?c"
    by (simp add: staleWorld_def emptyWorld_def tbl_get_def)
  have b: "1000 - timestamp ?c \<le> PERSONALITY_CACHE_DURATION"
    by (simp add: PERSONALITY_CACHE_DURATION_def)
  show ?thesis
    using getCachedPersonality_fingerprint [OF healthy_staleWorld a b, of "''Doom:10''"]
      getCachedPersonality_fingerprint [OF healthy_staleWorld a b, of "''Doom:11''"]
    by simp
qed

text \<open>
  The claim C2 as stated fails when a storage call rejects, which the function
  catches: with equal hashes and a rejected \<open>get\<close> it returns \<open>null\<close>, and with
  different hashes and a rejected \<open>delete\<close> the record stays in the store.
\<close>

theorem getCachedPersonality_rejected_counterexample:
  "tbl_get steamId ''u'' (personality_tbl (rejecting staleWorld)) = Some storedPersonality \<and>
   1000 - timestamp storedPersonality \<le> PERSONALITY_CACHE_DURATION \<and>
   gamesHash storedPersonality = ''Doom:10'' \<and>
   fst (getCachedPersonality 1000 ''u'' ''Doom:10'' (rejecting staleWorld)) = Inr None \<and>
   tbl_get steamId ''u'' (personality_tbl (rejectingSecond staleWorld)) = Some storedPersonality \<and>
   gamesHash storedPersonality \<noteq> ''Doom:11'' \<and>
   tbl_get steamId ''u''
     (personality_tbl (snd (getCachedPersonality 1000 ''u'' ''Doom:11'' (rejectingSecond staleWorld))))
     = Some storedPersonality"
  by (simp add: rejecting_def rejectingSecond_def staleWorld_def emptyWorld_def tbl_get_def
      storedPersonality_def PERSONALITY_CACHE_DURATION_def getCachedPersonality_def
      try_catch_def and_then_def db_read_def db_write_def)

lemma getCachedGames_expired:
  assumes "healthy w" and "tbl_get steamId sid (games_tbl w) = Some c"
    and "now - timestamp c > GAMES_CACHE_DURATION"
  shows "getCachedGames now sid w =
           (Inr None, w\<lparr>games_tbl := tbl_delete steamId sid (games_tbl w),
                        dbCalls := dbCalls w @ [(GamesStore, OpGet), (GamesStore, OpDelete)]\<rparr>)"
  using assms
  by (simp add: getCachedGames_def db_read_healthy db_write_healthy try_catch_def and_then_def)

lemma getCachedReviews_expired:
  assumes "healthy w" and "tbl_get steamId sid (reviews_tbl w) = Some c"
    and "now - timestamp c > REVIEWS_CACHE_DURATION"
  shows "getCachedReviews now sid w =
           (Inr None, w\<lparr>reviews_tbl := tbl_delete steamId sid (reviews_tbl w),
                        dbCalls := dbCalls w @ [(ReviewsStore, OpGet), (ReviewsStore, OpDelete)]\<rparr>)"
  using assms
  by (simp add: getCachedReviews_def db_read_healthy db_write_healthy try_catch_def and_then_def)

lemma collectFresh_None:
  assumes "m k = None"
    and "\<And>it. Some it \<in> set items \<Longrightarrow> appid it = k \<Longrightarrow>
           \<not> now - timestamp it < GAME_DETAILS_CACHE_DURATION"
  shows "collectFresh now items m k = None"
  using assms unfolding collectFresh_def
proof (induction items arbitrary: m)
  case Nil
  then show ?case by simp
next
  case (Cons item items)
  show ?case
  proof (cases item)
    case None
    then show ?thesis using Cons by simp
  next
    case (Some it)
    then show ?thesis using Cons by (cases "appid it = k") auto
  qed
qed

lemma bulkGet_item:
  "Some it \<in> set (tbl_bulkGet key ks t) \<Longrightarrow> tbl_get key (key it) t = Some it"
proof -
  assume "Some it \<in> set (tbl_bulkGet key ks t)"
  then obtain k where k: "tbl_get key k t = Some it"
    by (auto simp add: tbl_bulkGet_def)
  then have "key it = k" by (rule tbl_get_key)
  then show ?thesis using k by simp
qed

lemma getCachedGameDetailsMany_healthy:
  "healthy w \<Longrightarrow> getCachedGameDetailsMany now ids w =
     (Inr (collectFresh now (tbl_bulkGet appid ids (gameDetails_tbl w)) Map.empty),
      w\<lparr>dbCalls := dbCalls w @ [(GameDetailsStore, OpBulkGet (length ids))]\<rparr>)"
  by (simp add: getCachedGameDetailsMany_def db_read_healthy try_catch_def and_then_def)

lemma getCachedGameDetailsMany_tables:
  "gameDetails_tbl (snd (getCachedGameDetailsMany now ids w)) = gameDetails_tbl w"
  by (simp add: getCachedGameDetailsMany_def db_read_def try_catch_def and_then_def)

lemma getMany_expired_absent:
  assumes "healthy w" and "tbl_get appid aid (gameDetails_tbl w) = Some c"
    and "now - timestamp c > GAME_DETAILS_CACHE_DURATION"
  shows "\<exists>m. fst (getCachedGameDetailsMany now ids w) = Inr m \<and> m aid = None"
proof -
  have "collectFresh now (tbl_bulkGet appid ids (gameDetails_tbl w)) Map.empty aid = None"
  proof (rule collectFresh_None)
    show "Map.empty aid = None" by simp
  next
    fix it
    assume "Some it \<in> set (tbl_bulkGet appid ids (gameDetails_tbl w))" and "appid it = aid"
    then have "it = c" using bulkGet_item assms(2) by fastforce
    then show "\<not> now - timestamp it < GAME_DETAILS_CACHE_DURATION" using assms(3) by simp
  qed
  then show ?thesis using getCachedGameDetailsMany_healthy [OF assms(1)] by simp
qed

text \<open>
  C3, amended. When the storage calls do not reject, each single-record read
  (\<open>getCachedGames\<close>, \<open>getCachedPersonality\<close>, \<open>getCachedReviews\<close>,
  \<open>getCachedGameDetails\<close>) of a record older than the time-to-live of its collection
  returns absent and deletes the record. The batch read \<open>getCachedGameDetailsMany\<close>
  leaves such a record out of its result and leaves the store as it was.
\<close>

theorem expired_reads:
  assumes "healthy w"
  shows "(\<forall>c. tbl_get steamId sid (games_tbl w) = Some c \<and> now - timestamp c > GAMES_CACHE_DURATION \<longrightarrow>
            fst (getCachedGames now sid w) = Inr None \<and>
            tbl_get steamId sid (games_tbl (snd (getCachedGames now sid w))) = None) \<and>
         (\<forall>c. tbl_get steamId sid (personality_tbl w) = Some c \<and>
               now - timestamp c > PERSONALITY_CACHE_DURATION \<longrightarrow>
            fst (getCachedPersonality now sid h w) = Inr None \<and>
            tbl_get steamId sid (personality_tbl (snd (getCachedPersonality now sid h w))) = None) \<and>
         (\<forall>c. tbl_get steamId sid (reviews_tbl w) = Some c \<and> now - timestamp c > REVIEWS_CACHE_DURATION \<longrightarrow>
            fst (getCachedReviews now sid w) = Inr None \<and>
            tbl_get steamId sid (reviews_tbl (snd (getCachedReviews now sid w))) = None) \<and>
         (\<forall>c. tbl_get appid aid (gameDetails_tbl w) = Some c \<and>
               now - timestamp c > GAME_DETAILS_CACHE_DURATION \<longrightarrow>
            fst (getCachedGameDetails now aid w) = Inr None \<and>
            tbl_get appid aid (gameDetails_tbl (snd (getCachedGameDetails now aid w))) = None \<and>
            (\<exists>m. fst (getCachedGameDetailsMany now ids w) = Inr m \<and> m aid = None) \<and>
            gameDetails_tbl (snd (getCachedGameDetailsMany now ids w)) = gameDetails_tbl w)"
proof (intro conjI allI impI)
  fix c assume "tbl_get steamId sid (games_tbl w) = Some c \<and> now - timestamp c > GAMES_CACHE_DURATION"
  then have e: "getCachedGames now sid w =
           (Inr None, w\<lparr>games_tbl := tbl_delete steamId sid (games_tbl w),
                        dbCalls := dbCalls w @ [(GamesStore, OpGet), (GamesStore, OpDelete)]\<rparr>)"
    using getCachedGames_expired [OF assms] by blast
  show "fst (getCachedGames now sid w) = Inr None" by (simp add: e)
  show "tbl_get steamId sid (games_tbl (snd (getCachedGames now sid w))) = None"
    by (simp add: e tbl_get_delete)
next
  fix c assume "tbl_get steamId sid (personality_tbl w) = Some c \<and>
               now - timestamp c > PERSONALITY_CACHE_DURATION"
  then have e: "getCachedPersonality now sid h w =
           (Inr None, w\<lparr>personality_tbl := tbl_delete steamId sid (personality_tbl w),
                        dbCalls := dbCalls w @ [(PersonalityStore, OpGet), (PersonalityStore, OpDelete)]\<rparr>)"
    using getCachedPersonality_drop [OF assms] by blast
  show "fst (getCachedPersonality now sid h w) = Inr None" by (simp add: e)
  show "tbl_get steamId sid (personality_tbl (snd (getCachedPersonality now sid h w))) = None"
    by (simp add: e tbl_get_delete)
next
  fix c assume "tbl_get steamId sid (reviews_tbl w) = Some c \<and> now - timestamp c > REVIEWS_CACHE_DURATION"
  then have e: "getCachedReviews now sid w =
           (Inr None, w\<lparr>reviews_tbl := tbl_delete steamId sid (reviews_tbl w),
                        dbCalls := dbCalls w @ [(ReviewsStore, OpGet), (ReviewsStore, OpDelete)]\<rparr>)"
    using getCachedReviews_expired [OF assms] by blast
  show "fst (getCachedReviews now sid w) = Inr None" by (simp add: e)
  show "tbl_get steamId sid (reviews_tbl (snd (getCachedReviews now sid w))) = None"
    by (simp add: e tbl_get_delete)
next
  fix c assume a: "tbl_get appid aid (gameDetails_tbl w) = Some c \<and>
               now - timestamp c > GAME_DETAILS_CACHE_DURATION"
  then have e: "getCachedGameDetails now aid w =
           (Inr None, w\<lparr>gameDetails_tbl := tbl_delete appid aid (gameDetails_tbl w),
                        dbCalls := dbCalls w @ [(GameDetailsStore, OpGet), (GameDetailsStore, OpDelete)]\<rparr>)"
    using getCachedGameDetails_expired [OF assms] by blast
  show "fst (getCachedGameDetails now aid w) = Inr None" by (simp add: e)
  show "tbl_get appid aid (gameDetails_tbl (snd (getCachedGameDetails now aid w))) = None"
    by (simp add: e tbl_get_delete)
  show "\<exists>m. fst (getCachedGameDetailsMany now ids w) = Inr m \<and> m aid = None"
    using getMany_expired_absent [OF assms] a by blast
  show "gameDetails_tbl (snd (getCachedGameDetailsMany now ids w)) = gameDetails_tbl w"
    by (rule getCachedGameDetailsMany_tables)
qed

text \<open>
  The claim C3 as stated fails for the batch read: the expired record is still stored
  after \<open>getCachedGameDetailsMany\<close> has read it.
\<close>

theorem getCachedGameDetailsMany_keeps_stale_counterexample:
  "tbl_get appid 42 (gameDetails_tbl staleWorld) = Some legacyDetails \<and>
   3000000000 - timestamp legacyDetails > GAME_DETAILS_CACHE_DURATION \<and>
   tbl_get appid 42 (gameDetails_tbl (snd (getCachedGameDetailsMany 3000000000 [42] staleWorld)))
     = Some legacyDetails"
  by (simp add: getCachedGameDetailsMany_tables)
     (simp add: staleWorld_def emptyWorld_def tbl_get_def legacyDetails_def
       GAME_DETAILS_CACHE_DURATION_def)

theorem expired_reads_witness:
  "fst (getCachedGames 3000000000 ''u'' staleWorld) = Inr None \<and>
   tbl_get steamId ''u'' (games_tbl (snd (getCachedGames 3000000000 ''u'' staleWorld))) = None \<and>
   fst (getCachedPersonality 3000000000 ''u'' ''Doom:10'' staleWorld) = Inr None \<and>
   tbl_get steamId ''u''
     (personality_tbl (snd (getCachedPersonality 3000000000 ''u'' ''Doom:10'' staleWorld))) = None \<and>
   fst (getCachedReviews 3000000000 ''u'' staleWorld) = Inr None \<and>
   tbl_get steamId ''u'' (reviews_tbl (snd (getCachedReviews 3000000000 ''u'' staleWorld))) = None \<and>
   fst (getCachedGameDetails 3000000000 42 staleWorld) = Inr None \<and>
   tbl_get appid 42 (gameDetails_tbl (snd (getCachedGameDetails 3000000000 42 staleWorld))) = None \<and>
   (\<exists>m. fst (getCachedGameDetailsMany 3000000000 [42] staleWorld) = Inr m \<and> m 42 = None) \<and>
   gameDetails_tbl (snd (getCachedGameDetailsMany 3000000000 [42] staleWorld)) =
     gameDetails_tbl staleWorld"
proof -
  have g: "tbl_get steamId ''u'' (games_tbl staleWorld) =
             Some \<lparr>timestamp = 0, steamId = ''u'', games = []\<rparr>"
    and p: "tbl_get steamId ''u'' (personality_tbl staleWorld) =
             Some \<lparr>timestamp = 0, steamId = ''u'', result = ''INTJ'', gamesHash = ''Doom:10''\<rparr>"
    and r: "tbl_get steamId ''u'' (reviews_tbl staleWorld) =
             Some \<lparr>timestamp = 0, steamId = ''u'', reviews = [], totalReviews = 0\<rparr>"
    and d: "tbl_get appid 42 (gameDetails_tbl staleWorld) = Some legacyDetails"
    by (simp_all add: staleWorld_def emptyWorld_def tbl_get_def legacyDetails_def)
  have t: "(3000000000::int) - 0 > GAMES_CACHE_DURATION"
    "(3000000000::int) - 0 > PERSONALITY_CACHE_DURATION"
    "(3000000000::int) - 0 > REVIEWS_CACHE_DURATION"
    "(3000000000::int) - timestamp legacyDetails > GAME_DETAILS_CACHE_DURATION"
    by (simp_all add: GAMES_CACHE_DURATION_def PERSONALITY_CACHE_DURATION_def
        REVIEWS_CACHE_DURATION_def GAME_DETAILS_CACHE_DURATION_def legacyDetails_def)
  show ?thesis
    using expired_reads [OF healthy_staleWorld, of "''u''" 3000000000 "''Doom:10''" 42 "[42]"]
      g p r d t
    by simp
qed

declare digits_of.simps [simp del]

text \<open>
  The claim C9 as stated fails: with an empty list of ids the function still issues a
  \<open>bulkGet\<close> against the store.
\<close>

theorem getCachedGameDetailsMany_empty_counterexample:
  "dbCalls emptyWorld = [] \<and>
   dbCalls (snd (getCachedGameDetailsMany 1000 [] emptyWorld)) = [(GameDetailsStore, OpBulkGet 0)]"
  by (simp add: getCachedGameDetailsMany_def db_read_def try_catch_def and_then_def emptyWorld_def)

text \<open>
  C9, amended. \<open>getCachedGameDetailsMany([])\<close> returns an empty map and changes no
  stored record; its one storage call is a \<open>bulkGet\<close> with no key, which it issues
  whether or not the list is empty, and whose rejection it would catch.
\<close>

theorem getCachedGameDetailsMany_empty:
  "getCachedGameDetailsMany now [] w =
     (Inr Map.empty, w\<lparr>dbCalls := dbCalls w @ [(GameDetailsStore, OpBulkGet 0)]\<rparr>)"
  by (simp add: getCachedGameDetailsMany_def db_read_def try_catch_def and_then_def
      tbl_bulkGet_def collectFresh_def)

theorem getCachedGameDetailsMany_empty_witness:
  "fst (getCachedGameDetailsMany 1000 [] legacyWorld) = Inr Map.empty \<and>
   gameDetails_tbl (snd (getCachedGameDetailsMany 1000 [] legacyWorld)) = [legacyDetails]"
  using getCachedGameDetailsMany_empty [of 1000 legacyWorld]
  by (simp add: legacyWorld_eq)

lemma hash_via_pairs:
  "generateGamesHash gs =
     join ''|'' (map (\<lambda>(n, h). n @ '':'' @ number_toString h)
                   (take 10 (map (\<lambda>g. (name g, hours g)) gs)))"
  by (simp add: generateGamesHash_def take_map comp_def)

text \<open>
  C10. The fingerprint depends only on the first ten entries: two lists whose first
  ten (name, hours) pairs are equal have the same \<open>generateGamesHash\<close>, the hash of a
  list is the hash of its first ten entries, and \<open>setCachedPersonality\<close> stores the same
  record for both.
\<close>

theorem generateGamesHash_first10:
  assumes "take 10 (map (\<lambda>g. (name g, hours g)) xs) = take 10 (map (\<lambda>g. (name g, hours g)) ys)"
  shows "generateGamesHash xs = generateGamesHash ys \<and>
         generateGamesHash xs = generateGamesHash (take 10 xs) \<and>
         setCachedPersonality now sid res xs w = setCachedPersonality now sid res ys w"
proof -
  have a: "generateGamesHash xs = generateGamesHash ys"
    using assms by (simp add: hash_via_pairs)
  have b: "generateGamesHash xs = generateGamesHash (take 10 xs)"
    by (simp add: generateGamesHash_def)
  show ?thesis using a b by (simp add: setCachedPersonality_def)
qed

lemma tenGames_hash:
  "generateGamesHash (tenGames @ [\<lparr>name = ''K'', hours = 5\<rparr>]) =
     ''A:120|B:90|C:80|D:70|E:60|F:50|G:40|H:30|I:20|J:7''"
  by code_simp

theorem generateGamesHash_first10_witness:
  "generateGamesHash (tenGames @ [\<lparr>name = ''K'', hours = 5\<rparr>]) =
     ''A:120|B:90|C:80|D:70|E:60|F:50|G:40|H:30|I:20|J:7'' \<and>
   generateGamesHash (tenGames @ [\<lparr>name = ''Z'', hours = 1\<rparr>, \<lparr>name = ''K'', hours = 5\<rparr>]) =
     ''A:120|B:90|C:80|D:70|E:60|F:50|G:40|H:30|I:20|J:7'' \<and>
   setCachedPersonality 0 ''u'' ''INTJ'' (tenGames @ [\<lparr>name = ''K'', hours = 5\<rparr>]) emptyWorld =
   setCachedPersonality 0 ''u'' ''INTJ''
     (tenGames @ [\<lparr>name = ''Z'', hours = 1\<rparr>, \<lparr>name = ''K'', hours = 5\<rparr>]) emptyWorld"
proof -
  have "take 10 (map (\<lambda>g. (name g, hours g)) (tenGames @ [\<lparr>name = ''K'', hours = 5\<rparr>])) =
        take 10 (map (\<lambda>g. (name g, hours g))
                   (tenGames @ [\<lparr>name = ''Z'', hours = 1\<rparr>, \<lparr>name = ''K'', hours = 5\<rparr>]))"
    by (simp add: tenGames_def)
  from generateGamesHash_first10 [OF this, of 0 "''u''" "''INTJ''" emptyWorld] tenGames_hash
  show ?thesis by simp
qed

section \<open>Properties of the batch enrichment\<close>

lemma getMany_total:
  "\<exists>m. getCachedGameDetailsMany now ids w =
     (Inr m, w\<lparr>dbCalls := dbCalls w @ [(GameDetailsStore, OpBulkGet (length ids))]\<rparr>)"
  by (simp add: getCachedGameDetailsMany_def db_read_def try_catch_def and_then_def)

lemma collectFresh_step:
  "collectFresh now (item # items) m =
     collectFresh now items
       (case item of None \<Rightarrow> m
        | Some it \<Rightarrow> if now - timestamp it < GAME_DETAILS_CACHE_DURATION then m(appid it \<mapsto> it) else m)"
  by (simp add: collectFresh_def)

lemma collectFresh_bulkGet:
  "collectFresh now (tbl_bulkGet appid ids t) m k =
     (if k \<in> set ids \<and> freshGet now t k \<noteq> None then freshGet now t k else m k)"
proof (induction ids arbitrary: m)
  case Nil
  then show ?case by (simp add: tbl_bulkGet_def collectFresh_def)
next
  case (Cons i ids)
  have bg: "tbl_bulkGet appid (i # ids) t = tbl_get appid i t # tbl_bulkGet appid ids t"
    by (simp add: tbl_bulkGet_def)
  show ?case
  proof (cases "freshGet now t i")
    case None
    then have "collectFresh now (tbl_bulkGet appid (i # ids) t) m k =
               collectFresh now (tbl_bulkGet appid ids t) m k"
      by (auto simp add: bg collectFresh_step freshGet_def split: option.splits if_splits)
    then show ?thesis using None Cons.IH [of m] by auto
  next
    case (Some it)
    then have g: "tbl_get appid i t = Some it"
      and f: "now - timestamp it < GAME_DETAILS_CACHE_DURATION"
      by (auto simp add: freshGet_def split: option.splits if_splits)
    have k: "appid it = i" using g by (rule tbl_get_key)
    have "collectFresh now (tbl_bulkGet appid (i # ids) t) m k =
          collectFresh now (tbl_bulkGet appid ids t) (m(i \<mapsto> it)) k"
      using g f k by (simp add: bg collectFresh_step)
    then show ?thesis using Some Cons.IH [of "m(i \<mapsto> it)"] by auto
  qed
qed

lemma getMany_healthy_hits:
  assumes "healthy w" and "getCachedGameDetailsMany now ids w = (Inr hits, w1)"
  shows "hits k = (if k \<in> set ids then freshGet now (gameDetails_tbl w) k else None)"
    and "w1 = w\<lparr>dbCalls := dbCalls w @ [(GameDetailsStore, OpBulkGet (length ids))]\<rparr>"
proof -
  have h: "hits = collectFresh now (tbl_bulkGet appid ids (gameDetails_tbl w)) Map.empty"
    and "w1 = w\<lparr>dbCalls := dbCalls w @ [(GameDetailsStore, OpBulkGet (length ids))]\<rparr>"
    using assms(2) getCachedGameDetailsMany_healthy [OF assms(1), of now ids] by simp_all
  then show "w1 = w\<lparr>dbCalls := dbCalls w @ [(GameDetailsStore, OpBulkGet (length ids))]\<rparr>"
    by simp
  show "hits k = (if k \<in> set ids then freshGet now (gameDetails_tbl w) k else None)"
    unfolding h collectFresh_bulkGet by (cases "freshGet now (gameDetails_tbl w) k") auto
qed

lemma prepareBatch_appids:
  "set (map appid (fst (prepareBatch now es (tc, m)))) = set (map appid tc) \<union> set (resolvedIds es)"
  by (induction now es "(tc, m)" arbitrary: tc m rule: prepareBatch.induct)
    (auto simp add: resolvedIds_def detailsOf_def)

lemma prepareBatch_timestamps:
  "r \<in> set (fst (prepareBatch now es (tc, m))) \<Longrightarrow> r \<in> set tc \<or> timestamp r = now"
  by (induction now es "(tc, m)" arbitrary: tc m rule: prepareBatch.induct)
    (auto simp add: detailsOf_def)

lemma prepareBatch_snd_other:
  "k \<notin> set (resolvedIds es) \<Longrightarrow> snd (prepareBatch now es (tc, m)) k = m k"
  by (induction now es "(tc, m)" arbitrary: tc m rule: prepareBatch.induct)
    (auto simp add: resolvedIds_def)

lemma tbl_get_bulkPut_other:
  "k \<notin> key ` set rs \<Longrightarrow> tbl_get key k (tbl_bulkPut key rs t) = tbl_get key k t"
  unfolding tbl_bulkPut_def
  by (induction rs arbitrary: t) (auto simp add: tbl_get_put)

lemma tbl_get_bulkPut_in:
  "k \<in> key ` set rs \<Longrightarrow> \<exists>r \<in> set rs. tbl_get key k (tbl_bulkPut key rs t) = Some r"
  unfolding tbl_bulkPut_def
proof (induction rs arbitrary: t rule: rev_induct)
  case Nil
  then show ?case by simp
next
  case (snoc r rs)
  show ?case
  proof (cases "key r = k")
    case True
    then show ?thesis by (simp add: tbl_get_put)
  next
    case False
    then have "k \<in> key ` set rs" using snoc.prems by auto
    from snoc.IH [OF this, of t] False show ?thesis by (auto simp add: tbl_get_put)
  qed
qed

lemma fetch_unfold:
  assumes "getCachedGameDetailsMany now1 ids w = (Inr hits, w1)"
  shows "fetchAndCacheGameDetails now1 now2 remote ids w =
     (if filter (\<lambda>id. hits id = None) ids = [] then (Inr hits, w1)
      else (case batchFetch now2 remote (filter (\<lambda>id. hits id = None) ids) hits w1 of
              (r, cached', w2) \<Rightarrow> (Inr cached', w2)))"
  by (simp add: fetchAndCacheGameDetails_def and_then_def assms Let_def)

lemma fetch_never_throws: "\<exists>m. fst (fetchAndCacheGameDetails now1 now2 remote ids w) = Inr m"
proof -
  obtain hits w1 where g: "getCachedGameDetailsMany now1 ids w = (Inr hits, w1)"
    using getMany_total by blast
  show ?thesis unfolding fetch_unfold [OF g] by (auto split: prod.splits)
qed

lemma batchFetch_failed:
  "requestFailed (remote u) \<Longrightarrow> fst (snd (batchFetch now remote u cached w)) = cached"
  by (auto simp add: batchFetch_def requestFailed_def Let_def
      split: fetchOutcome.splits responseBody.splits option.splits)

lemma batchFetch_unresolved:
  assumes "cached k = None" and "k \<notin> set (resolvedBy (remote u))"
  shows "fst (snd (batchFetch now remote u cached w)) k = None \<and>
         tbl_get appid k (gameDetails_tbl (snd (snd (batchFetch now remote u cached w)))) =
           tbl_get appid k (gameDetails_tbl w)"
proof (cases "remote u")
  case NetworkFailure
  then show ?thesis using assms by (simp add: batchFetch_def Let_def)
next
  case (HttpResponse status body)
  show ?thesis
  proof (cases "response_ok status")
    case False
    then show ?thesis using assms HttpResponse by (simp add: batchFetch_def Let_def)
  next
    case True
    show ?thesis
    proof (cases body)
      case Unparsable
      then show ?thesis using assms HttpResponse True by (simp add: batchFetch_def Let_def)
    next
      case (Json res)
      show ?thesis
      proof (cases res)
        case None
        then show ?thesis using assms HttpResponse True Json by (simp add: batchFetch_def Let_def)
      next
        case (Some entries)
        obtain toCache cached' where p: "prepareBatch now entries ([], cached) = (toCache, cached')"
          by (cases "prepareBatch now entries ([], cached)")
        have nr: "k \<notin> set (resolvedIds entries)"
          using assms(2) HttpResponse True Json Some by (simp add: resolvedBy_def)
        have c: "cached' k = None"
          using prepareBatch_snd_other [OF nr, of now "[]" cached] p assms(1) by simp
        have "set (map appid toCache) = set (resolvedIds entries)"
          using prepareBatch_appids [of now entries "[]" cached] p by simp
        then have "k \<notin> appid ` set toCache" using nr by auto
        then have t: "tbl_get appid k (tbl_bulkPut appid toCache (gameDetails_tbl w)) =
                      tbl_get appid k (gameDetails_tbl w)"
          by (rule tbl_get_bulkPut_other)
        show ?thesis
          using HttpResponse True Json Some p c t
          by (simp add: batchFetch_def Let_def db_write_def)
      qed
    qed
  qed
qed

text \<open>
  C6. When the batched request fails (the fetch rejects, the status is not a success,
  or the body cannot be read), \<open>fetchAndCacheGameDetails\<close> returns exactly the map of
  the cache hits it gathered before the request; and whatever the request and the
  store do, the function returns a map and does not throw.
\<close>

theorem fetchAndCacheGameDetails_failed_request:
  assumes "getCachedGameDetailsMany now1 ids w = (Inr hits, w1)"
    and "requestFailed (remote (filter (\<lambda>id. hits id = None) ids))"
  shows "fst (fetchAndCacheGameDetails now1 now2 remote ids w) = Inr hits \<and>
         (\<forall>n1 n2 r is v. \<exists>m. fst (fetchAndCacheGameDetails n1 n2 r is v) = Inr m)"
proof -
  have "fst (fetchAndCacheGameDetails now1 now2 remote ids w) = Inr hits"
    unfolding fetch_unfold [OF assms(1)]
    using batchFetch_failed [of remote "filter (\<lambda>id. hits id = None) ids" now2 hits w1] assms(2)
    by (auto split: prod.splits)
  then show ?thesis using fetch_never_throws by blast
qed

lemma tbl_get_set: "tbl_get key k t = Some r \<Longrightarrow> r \<in> set t"
  unfolding tbl_get_def by (induction t) (auto split: if_splits)

lemma getMany_posts: "posts (snd (getCachedGameDetailsMany now ids w)) = posts w"
  by (simp add: getCachedGameDetailsMany_def db_read_def try_catch_def and_then_def)

lemma healthy_faults: "dbFaults w' = dbFaults w \<Longrightarrow> healthy w' = healthy w"
  by (simp add: healthy_def)

lemma resolvedBy_answer:
  assumes "k \<in> set (resolvedBy out)"
  shows "\<exists>status entries. out = HttpResponse status (Json (Some entries)) \<and> response_ok status"
proof (cases out)
  case NetworkFailure
  then show ?thesis using assms by (simp add: resolvedBy_def)
next
  case (HttpResponse status body)
  show ?thesis
  proof (cases body)
    case Unparsable
    have "resolvedBy out = []" unfolding HttpResponse Unparsable resolvedBy_def by simp
    then show ?thesis using assms by simp
  next
    case (Json res)
    show ?thesis
    proof (cases res)
      case None
      have "resolvedBy out = []" unfolding HttpResponse Json None resolvedBy_def by simp
      then show ?thesis using assms by simp
    next
      case (Some entries)
      show ?thesis
      proof (cases "response_ok status")
        case True
        then show ?thesis using HttpResponse Json Some by simp
      next
        case False
        then have "resolvedBy out = []" unfolding HttpResponse resolvedBy_def by simp
        then show ?thesis using assms by simp
      qed
    qed
  qed
qed

lemma first_call_store:
  assumes h: "healthy w"
    and g: "getCachedGameDetailsMany now1 ids w = (Inr hits, w1)"
    and r: "set (filter (\<lambda>id. hits id = None) ids) \<subseteq>
            set (resolvedBy (remote (filter (\<lambda>id. hits id = None) ids)))"
  shows "\<exists>tc. gameDetails_tbl (snd (fetchAndCacheGameDetails now1 now2 remote ids w)) =
                 tbl_bulkPut appid tc (gameDetails_tbl w) \<and>
              dbFaults (snd (fetchAndCacheGameDetails now1 now2 remote ids w)) = dbFaults w \<and>
              (\<forall>x \<in> set tc. timestamp x = now2) \<and>
              set (filter (\<lambda>id. hits id = None) ids) \<subseteq> appid ` set tc"
proof -
  let ?u = "filter (\<lambda>id. hits id = None) ids"
  have w1: "w1 = w\<lparr>dbCalls := dbCalls w @ [(GameDetailsStore, OpBulkGet (length ids))]\<rparr>"
    using getMany_healthy_hits(2) [OF h g] .
  show ?thesis
  proof (cases "?u = []")
    case True
    have F: "fetchAndCacheGameDetails now1 now2 remote ids w = (Inr hits, w1)"
      unfolding fetch_unfold [OF g] using True by simp
    show ?thesis
      by (rule exI [where x = "[]"]) (simp add: F w1 tbl_bulkPut_def True)
  next
    case False
    then obtain k where k: "k \<in> set ?u" by (meson last_in_set)
    then have kr: "k \<in> set (resolvedBy (remote ?u))" using r by blast
    then obtain status entries
      where out: "remote ?u = HttpResponse status (Json (Some entries))"
        and ok: "response_ok status"
      using resolvedBy_answer by blast
    have rb: "resolvedBy (remote ?u) = resolvedIds entries"
      using out ok by (simp add: resolvedBy_def)
    obtain toCache cached' where p: "prepareBatch now2 entries ([], hits) = (toCache, cached')"
      by (cases "prepareBatch now2 entries ([], hits)")
    have ids: "set (map appid toCache) = set (resolvedIds entries)"
      using prepareBatch_appids [of now2 entries "[]" hits] p by simp
    then have sub: "set ?u \<subseteq> appid ` set toCache" using r rb by auto
    then have ne: "toCache \<noteq> []" using k by auto
    have ts: "\<forall>x \<in> set toCache. timestamp x = now2"
      using prepareBatch_timestamps [of _ now2 entries "[]" hits] p by auto
    have hw1: "healthy w1" using h w1 by simp
    have bf: "batchFetch now2 remote ?u hits w1 =
                (Inr (), cached',
                 w1\<lparr>posts := posts w1 @ [?u],
                    gameDetails_tbl := tbl_bulkPut appid toCache (gameDetails_tbl w1),
                    dbCalls := dbCalls w1 @ [(GameDetailsStore, OpBulkPut (length toCache))]\<rparr>)"
      using out ok p ne hw1
      by (simp add: batchFetch_def Let_def db_write_def healthy_def)
    have F: "fetchAndCacheGameDetails now1 now2 remote ids w =
               (Inr cached',
                w1\<lparr>posts := posts w1 @ [?u],
                   gameDetails_tbl := tbl_bulkPut appid toCache (gameDetails_tbl w1),
                   dbCalls := dbCalls w1 @ [(GameDetailsStore, OpBulkPut (length toCache))]\<rparr>)"
      unfolding fetch_unfold [OF g] using False bf by simp
    show ?thesis
      using ts sub by (intro exI [where x = toCache]) (simp add: F w1)
  qed
qed


lemma batchFetch_posts:
  "posts (snd (snd (batchFetch now remote u cached w))) = posts w @ [u]"
  by (auto simp add: batchFetch_def Let_def db_write_def
      split: fetchOutcome.splits responseBody.splits option.splits prod.splits)


lemma freshGet_later:
  assumes "freshGet now1 t k = None" and "now1 \<le> now3"
  shows "freshGet now3 t k = None"
  using assms by (auto simp add: freshGet_def split: option.splits if_splits)

lemma fetch_dbFaults: "dbFaults (snd (fetchAndCacheGameDetails now1 now2 remote ids w)) = dbFaults w"
proof -
  obtain hits w1 where g: "getCachedGameDetailsMany now1 ids w = (Inr hits, w1)"
    using getMany_total by blast
  have w1: "dbFaults w1 = dbFaults w"
    using g by (auto simp add: getCachedGameDetailsMany_def db_read_def try_catch_def and_then_def
        split: if_splits)
  have "dbFaults (snd (snd (batchFetch now2 remote u hits w1))) = dbFaults w1" for u
    by (auto simp add: batchFetch_def Let_def db_write_def
        split: fetchOutcome.splits responseBody.splits option.splits prod.splits)
  then have b: "dbFaults (snd (snd (batchFetch now2 remote
                    (filter (\<lambda>id. hits id = None) ids) hits w1))) = dbFaults w"
    using w1 by simp
  show ?thesis
  proof (cases "filter (\<lambda>id. hits id = None) ids = []")
    case True
    then show ?thesis unfolding fetch_unfold [OF g] using w1 by simp
  next
    case False
    then show ?thesis unfolding fetch_unfold [OF g] using b
      by (cases "batchFetch now2 remote (filter (\<lambda>id. hits id = None) ids) hits w1") simp
  qed
qed

lemma unresolved_requested_again:
  assumes h: "healthy w"
    and g: "getCachedGameDetailsMany now1 ids w = (Inr hits, w1)"
    and k: "k \<in> set (filter (\<lambda>id. hits id = None) ids)"
    and n: "k \<notin> set (resolvedBy (remote (filter (\<lambda>id. hits id = None) ids)))"
    and t: "now1 \<le> now3"
  shows "\<exists>req. posts (snd (fetchAndCacheGameDetails now3 now4 remote' ids
                              (snd (fetchAndCacheGameDetails now1 now2 remote ids w)))) =
               posts (snd (fetchAndCacheGameDetails now1 now2 remote ids w)) @ [req] \<and>
               k \<in> set req"
proof -
  let ?u = "filter (\<lambda>id. hits id = None) ids"
  let ?w' = "snd (fetchAndCacheGameDetails now1 now2 remote ids w)"
  have kin: "k \<in> set ids" and hk: "hits k = None" using k by simp_all
  have t1: "gameDetails_tbl w1 = gameDetails_tbl w"
    using getCachedGameDetailsMany_tables [of now1 ids w] g by simp
  have ne: "?u \<noteq> []" using k by (metis empty_iff list.set(1))
  have same: "tbl_get appid k (gameDetails_tbl ?w') = tbl_get appid k (gameDetails_tbl w)"
    unfolding fetch_unfold [OF g]
    using ne hk n t1 batchFetch_unresolved [of hits k remote ?u now2 w1]
    by (cases "batchFetch now2 remote ?u hits w1") simp
  have "freshGet now1 (gameDetails_tbl w) k = None"
    using getMany_healthy_hits(1) [OF h g, of k] kin hk by simp
  then have "freshGet now3 (gameDetails_tbl w) k = None" using t by (rule freshGet_later)
  then have stale: "freshGet now3 (gameDetails_tbl ?w') k = None"
    using same by (simp add: freshGet_def)
  have h': "healthy ?w'" using fetch_dbFaults [of now1 now2 remote ids w] h healthy_faults by blast
  obtain hits2 w2 where g2: "getCachedGameDetailsMany now3 ids ?w' = (Inr hits2, w2)"
    using getMany_total by blast
  have "hits2 k = None" using getMany_healthy_hits(1) [OF h' g2, of k] stale kin by simp
  then have k2: "k \<in> set (filter (\<lambda>id. hits2 id = None) ids)" using kin by simp
  then have ne2: "filter (\<lambda>id. hits2 id = None) ids \<noteq> []" by (metis empty_iff list.set(1))
  have p2: "posts w2 = posts ?w'" using getMany_posts [of now3 ids ?w'] g2 by simp
  have "posts (snd (fetchAndCacheGameDetails now3 now4 remote' ids ?w')) =
        posts ?w' @ [filter (\<lambda>id. hits2 id = None) ids]"
    unfolding fetch_unfold [OF g2]
    using ne2 p2 batchFetch_posts [of now4 remote' "filter (\<lambda>id. hits2 id = None) ids" hits2 w2]
    by (cases "batchFetch now4 remote' (filter (\<lambda>id. hits2 id = None) ids) hits2 w2") simp
  then show ?thesis using k2 by blast
qed

text \<open>
  C4, amended. When the cache-miss partition is empty, \<open>fetchAndCacheGameDetails\<close>
  returns the map of hits at once and posts no request. When no storage call of either
  invocation rejects: a second call with the same ids posts no request if, in the
  first call, the remote resolved every id that was not a hit and no record expires in
  between; and an id that was not a hit and that the first answer did not resolve is
  requested again by a second call that is not earlier than the first.
\<close>

theorem fetchAndCacheGameDetails_no_request:
  assumes g: "getCachedGameDetailsMany now1 ids w = (Inr hits, w1)"
  shows "(filter (\<lambda>id. hits id = None) ids = [] \<longrightarrow>
            fetchAndCacheGameDetails now1 now2 remote ids w = (Inr hits, w1) \<and>
            posts w1 = posts w) \<and>
         (healthy w \<and>
          set (filter (\<lambda>id. hits id = None) ids) \<subseteq>
            set (resolvedBy (remote (filter (\<lambda>id. hits id = None) ids))) \<and>
          now3 - now2 < GAME_DETAILS_CACHE_DURATION \<and>
          (\<forall>x \<in> set (gameDetails_tbl w).
              now1 - timestamp x < GAME_DETAILS_CACHE_DURATION \<longrightarrow>
              now3 - timestamp x < GAME_DETAILS_CACHE_DURATION) \<longrightarrow>
          posts (snd (fetchAndCacheGameDetails now3 now4 remote' ids
                        (snd (fetchAndCacheGameDetails now1 now2 remote ids w)))) =
          posts (snd (fetchAndCacheGameDetails now1 now2 remote ids w))) \<and>
         (healthy w \<and> k \<in> set (filter (\<lambda>id. hits id = None) ids) \<and>
          k \<notin> set (resolvedBy (remote (filter (\<lambda>id. hits id = None) ids))) \<and>
          now1 \<le> now3 \<longrightarrow>
          (\<exists>req. posts (snd (fetchAndCacheGameDetails now3 now4 remote' ids
                                (snd (fetchAndCacheGameDetails now1 now2 remote ids w)))) =
                 posts (snd (fetchAndCacheGameDetails now1 now2 remote ids w)) @ [req] \<and>
                 k \<in> set req))"
proof (intro conjI impI)
  assume "filter (\<lambda>id. hits id = None) ids = []"
  then show "fetchAndCacheGameDetails now1 now2 remote ids w = (Inr hits, w1)"
    unfolding fetch_unfold [OF g] by simp
  show "posts w1 = posts w" using getMany_posts [of now1 ids w] g by simp
next
  let ?u = "filter (\<lambda>id. hits id = None) ids"
  let ?w' = "snd (fetchAndCacheGameDetails now1 now2 remote ids w)"
  assume a: "healthy w \<and> set ?u \<subseteq> set (resolvedBy (remote ?u)) \<and>
          now3 - now2 < GAME_DETAILS_CACHE_DURATION \<and>
          (\<forall>x \<in> set (gameDetails_tbl w).
              now1 - timestamp x < GAME_DETAILS_CACHE_DURATION \<longrightarrow>
              now3 - timestamp x < GAME_DETAILS_CACHE_DURATION)"
  then have h: "healthy w" by simp
  from a have r: "set ?u \<subseteq> set (resolvedBy (remote ?u))" by simp
  obtain tc where tbl: "gameDetails_tbl ?w' = tbl_bulkPut appid tc (gameDetails_tbl w)"
    and fl: "dbFaults ?w' = dbFaults w"
    and ts: "\<forall>x \<in> set tc. timestamp x = now2"
    and sub: "set ?u \<subseteq> appid ` set tc"
    using first_call_store [of w now1 ids hits w1 remote now2] h g r by blast
  have h': "healthy ?w'" using fl h healthy_faults by blast
  obtain hits2 w2 where g2: "getCachedGameDetailsMany now3 ids ?w' = (Inr hits2, w2)"
    using getMany_total by blast
  have fresh: "freshGet now3 (gameDetails_tbl ?w') k \<noteq> None" if k: "k \<in> set ids" for k
  proof (cases "k \<in> appid ` set tc")
    case True
    then obtain x where "x \<in> set tc" and "tbl_get appid k (gameDetails_tbl ?w') = Some x"
      unfolding tbl using tbl_get_bulkPut_in [of k appid tc] by blast
    then show ?thesis using ts a by (simp add: freshGet_def)
  next
    case False
    then have same: "tbl_get appid k (gameDetails_tbl ?w') = tbl_get appid k (gameDetails_tbl w)"
      unfolding tbl by (rule tbl_get_bulkPut_other)
    have "k \<notin> set ?u" using False sub by blast
    then have "hits k \<noteq> None" using k by simp
    then have "freshGet now1 (gameDetails_tbl w) k \<noteq> None"
      using getMany_healthy_hits(1) [OF h g, of k] k by simp
    then obtain x where x: "tbl_get appid k (gameDetails_tbl w) = Some x"
      and f: "now1 - timestamp x < GAME_DETAILS_CACHE_DURATION"
      by (auto simp add: freshGet_def split: option.splits if_splits)
    have "x \<in> set (gameDetails_tbl w)" using x by (rule tbl_get_set)
    then have "now3 - timestamp x < GAME_DETAILS_CACHE_DURATION" using a f by blast
    then show ?thesis using same x by (simp add: freshGet_def)
  qed
  have "hits2 k \<noteq> None" if "k \<in> set ids" for k
    using getMany_healthy_hits(1) [OF h' g2, of k] fresh [OF that] that by simp
  then have "filter (\<lambda>id. hits2 id = None) ids = []" by (simp add: filter_empty_conv)
  then have "fetchAndCacheGameDetails now3 now4 remote' ids ?w' = (Inr hits2, w2)"
    unfolding fetch_unfold [OF g2] by simp
  then show "posts (snd (fetchAndCacheGameDetails now3 now4 remote' ids ?w')) = posts ?w'"
    using getMany_posts [of now3 ids ?w'] g2 by simp
next
  assume b: "healthy w \<and> k \<in> set (filter (\<lambda>id. hits id = None) ids) \<and>
          k \<notin> set (resolvedBy (remote (filter (\<lambda>id. hits id = None) ids))) \<and>
          now1 \<le> now3"
  show "\<exists>req. posts (snd (fetchAndCacheGameDetails now3 now4 remote' ids
                                (snd (fetchAndCacheGameDetails now1 now2 remote ids w)))) =
                 posts (snd (fetchAndCacheGameDetails now1 now2 remote ids w)) @ [req] \<and>
                 k \<in> set req"
    using unresolved_requested_again [of w now1 ids hits w1 k remote now3 now4 remote' now2] b g
    by blast
qed


lemmas run_defs =
  fetchAndCacheGameDetails_def getCachedGameDetailsMany_def db_read_def db_write_def
  try_catch_def and_then_def tbl_bulkGet_def tbl_get_def tbl_bulkPut_def tbl_put_def
  collectFresh_def batchFetch_def partialRemote_def failingRemote_def response_ok_def
  detailsOf_def sampleGame_def emptyWorld_def GAME_DETAILS_CACHE_DURATION_def Let_def
  fetched_def afterFirstCall_def

lemma getMany_emptyWorld:
  "getCachedGameDetailsMany 0 ids emptyWorld =
     (Inr Map.empty, emptyWorld\<lparr>dbCalls := [(GameDetailsStore, OpBulkGet (length ids))]\<rparr>)"
  by (induction ids) (simp_all add: run_defs)

lemma first_call_run:
  "fetchAndCacheGameDetails 0 5 partialRemote [1, 2, 3] emptyWorld =
     (Inr [1 \<mapsto> fetched 5 1, 3 \<mapsto> fetched 5 3], afterFirstCall)"
  by (simp add: run_defs)

lemma second_call_posts:
  "posts (snd (fetchAndCacheGameDetails 10 15 partialRemote [1, 2, 3] afterFirstCall)) =
     [[1, 2, 3], [2]]"
  by (simp add: run_defs)


text \<open>
  The claim C4 as stated fails: the remote resolves 1 and 3 of the ids 1, 2, 3, and
  the second call, before any expiry, posts a request for the id 2.
\<close>

theorem fetchAndCacheGameDetails_second_call_counterexample:
  "posts (snd (fetchAndCacheGameDetails 0 5 partialRemote [1, 2, 3] emptyWorld)) = [[1, 2, 3]] \<and>
   (10::int) - 5 < GAME_DETAILS_CACHE_DURATION \<and>
   posts (snd (fetchAndCacheGameDetails 10 15 partialRemote [1, 2, 3]
                 (snd (fetchAndCacheGameDetails 0 5 partialRemote [1, 2, 3] emptyWorld)))) =
     [[1, 2, 3], [2]]"
  by (simp add: first_call_run second_call_posts)
     (simp add: afterFirstCall_def GAME_DETAILS_CACHE_DURATION_def)



theorem fetchAndCacheGameDetails_failed_request_witness:
  "fst (fetchAndCacheGameDetails 1000 1005 failingRemote [42, 7] legacyWorld) =
     Inr [42 \<mapsto> legacyDetails] \<and>
   fst (fetchAndCacheGameDetails 1000 1005 (\<lambda>ids. NetworkFailure) [42, 7] legacyWorld) =
     Inr [42 \<mapsto> legacyDetails]"
proof -
  have g: "getCachedGameDetailsMany 1000 [42, 7] legacyWorld =
      (Inr [42 \<mapsto> legacyDetails],
       legacyWorld\<lparr>dbCalls := [(GameDetailsStore, OpPut), (GameDetailsStore, OpBulkGet 2)]\<rparr>)"
    by (simp add: legacyWorld_eq legacyDetails_def run_defs)
  have f1: "requestFailed (failingRemote (filter (\<lambda>id. [42 \<mapsto> legacyDetails] id = None) [42, 7]))"
    by (simp add: requestFailed_def failingRemote_def response_ok_def)
  have f2: "requestFailed ((\<lambda>ids. NetworkFailure)
              (filter (\<lambda>id. [42 \<mapsto> legacyDetails] id = None) [42, 7]))"
    by (simp add: requestFailed_def)
  show ?thesis
    using fetchAndCacheGameDetails_failed_request
        [where remote = failingRemote and ?now2.0 = 1005, OF g]
      fetchAndCacheGameDetails_failed_request
        [where remote = "\<lambda>ids. NetworkFailure" and ?now2.0 = 1005, OF g]
      f1 f2
    by simp
qed

theorem fetchAndCacheGameDetails_no_request_witness:
  "posts (snd (fetchAndCacheGameDetails 10 15 failingRemote [1, 3]
                 (snd (fetchAndCacheGameDetails 0 5 partialRemote [1, 3] emptyWorld)))) =
   posts (snd (fetchAndCacheGameDetails 0 5 partialRemote [1, 3] emptyWorld)) \<and>
   posts (snd (fetchAndCacheGameDetails 0 5 partialRemote [1, 3] emptyWorld)) = [[1, 3]] \<and>
   fetchAndCacheGameDetails 0 5 partialRemote [] emptyWorld =
     (Inr Map.empty, emptyWorld\<lparr>dbCalls := [(GameDetailsStore, OpBulkGet 0)]\<rparr>) \<and>
   (\<exists>req. posts (snd (fetchAndCacheGameDetails 10 15 partialRemote [1, 2, 3]
                         (snd (fetchAndCacheGameDetails 0 5 partialRemote [1, 2, 3] emptyWorld)))) =
          posts (snd (fetchAndCacheGameDetails 0 5 partialRemote [1, 2, 3] emptyWorld)) @ [req] \<and>
          2 \<in> set req)"
proof -
  have g: "getCachedGameDetailsMany 0 [1, 3] emptyWorld =
      (Inr Map.empty, emptyWorld\<lparr>dbCalls := [(GameDetailsStore, OpBulkGet (length [1, 3::int]))]\<rparr>)"
    by (rule getMany_emptyWorld)
  have g0: "getCachedGameDetailsMany 0 [] emptyWorld =
      (Inr Map.empty, emptyWorld\<lparr>dbCalls := [(GameDetailsStore, OpBulkGet (length ([]::int list)))]\<rparr>)"
    by (rule getMany_emptyWorld)
  have g3: "getCachedGameDetailsMany 0 [1, 2, 3] emptyWorld =
      (Inr Map.empty, emptyWorld\<lparr>dbCalls := [(GameDetailsStore, OpBulkGet (length [1, 2, 3::int]))]\<rparr>)"
    by (rule getMany_emptyWorld)
  have r: "set (filter (\<lambda>id. (Map.empty :: int \<rightharpoonup> GameDetails) id = None) [1, 3]) \<subseteq>
           set (resolvedBy (partialRemote
                  (filter (\<lambda>id. (Map.empty :: int \<rightharpoonup> GameDetails) id = None) [1, 3])))"
    by (simp add: resolvedBy_def partialRemote_def response_ok_def resolvedIds_def)
  have t: "(10::int) - 5 < GAME_DETAILS_CACHE_DURATION"
    by (simp add: GAME_DETAILS_CACHE_DURATION_def)
  have s: "\<forall>x \<in> set (gameDetails_tbl emptyWorld).
             0 - timestamp x < GAME_DETAILS_CACHE_DURATION \<longrightarrow>
             10 - timestamp x < GAME_DETAILS_CACHE_DURATION"
    by (simp add: emptyWorld_def)
  have p: "posts (snd (fetchAndCacheGameDetails 0 5 partialRemote [1, 3] emptyWorld)) = [[1, 3]]"
    by (simp add: run_defs)
  have k: "2 \<in> set (filter (\<lambda>id. (Map.empty :: int \<rightharpoonup> GameDetails) id = None) [1, 2, 3])"
    by simp
  have n: "2 \<notin> set (resolvedBy (partialRemote
              (filter (\<lambda>id. (Map.empty :: int \<rightharpoonup> GameDetails) id = None) [1, 2, 3])))"
    by (simp add: resolvedBy_def partialRemote_def response_ok_def resolvedIds_def)
  have again: "\<exists>req. posts (snd (fetchAndCacheGameDetails 10 15 partialRemote [1, 2, 3]
                         (snd (fetchAndCacheGameDetails 0 5 partialRemote [1, 2, 3] emptyWorld)))) =
          posts (snd (fetchAndCacheGameDetails 0 5 partialRemote [1, 2, 3] emptyWorld)) @ [req] \<and>
          2 \<in> set req"
    using fetchAndCacheGameDetails_no_request
        [where ?now1.0 = 0 and ids = "[1, 2, 3]" and w = emptyWorld and hits = Map.empty
           and ?now2.0 = 5 and remote = partialRemote and ?now3.0 = 10 and ?now4.0 = 15
           and remote' = partialRemote and k = 2, OF g3]
      healthy_emptyWorld k n
    by simp
  have rest: "posts (snd (fetchAndCacheGameDetails 10 15 failingRemote [1, 3]
                 (snd (fetchAndCacheGameDetails 0 5 partialRemote [1, 3] emptyWorld)))) =
      posts (snd (fetchAndCacheGameDetails 0 5 partialRemote [1, 3] emptyWorld)) \<and>
      posts (snd (fetchAndCacheGameDetails 0 5 partialRemote [1, 3] emptyWorld)) = [[1, 3]] \<and>
      fetchAndCacheGameDetails 0 5 partialRemote [] emptyWorld =
        (Inr Map.empty, emptyWorld\<lparr>dbCalls := [(GameDetailsStore, OpBulkGet 0)]\<rparr>)"
    using fetchAndCacheGameDetails_no_request [OF g, of 5 partialRemote 10 15 failingRemote]
      fetchAndCacheGameDetails_no_request [OF g0, of 5 partialRemote]
      healthy_emptyWorld r t s p
    by simp
  show ?thesis using rest again by blast
qed

section \<open>Properties of the rate-limited fetcher\<close>

declare retryLoop.simps [simp del]

lemma retryLoop_last:
  "retryLoop server (Suc (Suc 0)) delay tr = (delivered (server (Suc (Suc 0))), tr @ [Fetch])"
  by (subst retryLoop.simps)
    (simp add: maxRetries_def delivered_def split: fetchOutcome.splits)

lemma retryLoop_step:
  assumes "attempt < 2"
  shows "retryLoop server attempt delay tr =
     (if throttled (server attempt)
      then retryLoop server (Suc attempt) (delay * 2) (tr @ [Fetch, Sleep delay])
      else (delivered (server attempt), tr @ [Fetch]))"
  using assms
  by (subst retryLoop.simps)
    (auto simp add: maxRetries_def delivered_def throttled_def response_ok_def
      split: fetchOutcome.splits)

lemma retryLoop_from_start:
  "retryLoop server 0 delay tr =
     (if \<not> throttled (server 0) then (delivered (server 0), tr @ [Fetch])
      else if \<not> throttled (server 1)
      then (delivered (server 1), tr @ [Fetch, Sleep delay, Fetch])
      else (delivered (server 2), tr @ [Fetch, Sleep delay, Fetch, Sleep (delay * 2), Fetch]))"
proof -
  have s0: "retryLoop server 0 delay tr =
     (if throttled (server 0)
      then retryLoop server (Suc 0) (delay * 2) (tr @ [Fetch, Sleep delay])
      else (delivered (server 0), tr @ [Fetch]))"
    by (rule retryLoop_step) simp
  have s1: "retryLoop server (Suc 0) (delay * 2) (tr @ [Fetch, Sleep delay]) =
     (if throttled (server (Suc 0))
      then retryLoop server (Suc (Suc 0)) (delay * 2 * 2)
             ((tr @ [Fetch, Sleep delay]) @ [Fetch, Sleep (delay * 2)])
      else (delivered (server (Suc 0)), (tr @ [Fetch, Sleep delay]) @ [Fetch]))"
    by (rule retryLoop_step) simp
  show ?thesis
    unfolding s0 s1 retryLoop_last by (simp add: numeral_2_eq_2)
qed

lemma delivered_not_exhausted: "delivered out \<noteq> Inl MaxRetriesExceeded"
  by (simp add: delivered_def split: fetchOutcome.splits)

text \<open>
  C7. \<open>fetchWithRateLimit\<close> sends at most three requests. It sends the next one only
  after a response with status 403 or 429, waiting 2000 ms before the second and
  4000 ms before the third; any other response, successful or not, is returned at
  once; the third response is returned whatever its status. The exception
  \<open>Max retries exceeded\<close> is never the result, and when no fetch rejects the result
  is a response.
\<close>

theorem fetchWithRateLimit_retry_policy:
  "fetchWithRateLimit lastRequestTime now now' server =
     (if \<not> throttled (server 0)
      then (delivered (server 0), now', pacing lastRequestTime now @ [Fetch])
      else if \<not> throttled (server 1)
      then (delivered (server 1), now', pacing lastRequestTime now @ [Fetch, Sleep 2000, Fetch])
      else (delivered (server 2), now',
            pacing lastRequestTime now @ [Fetch, Sleep 2000, Fetch, Sleep 4000, Fetch])) \<and>
   fst (fetchWithRateLimit lastRequestTime now now' server) \<noteq> Inl MaxRetriesExceeded \<and>
   ((\<forall>n. server n \<noteq> NetworkFailure) \<longrightarrow>
      (\<exists>status body. fst (fetchWithRateLimit lastRequestTime now now' server) = Inr (status, body)))"
proof -
  have eq: "fetchWithRateLimit lastRequestTime now now' server =
     (if \<not> throttled (server 0)
      then (delivered (server 0), now', pacing lastRequestTime now @ [Fetch])
      else if \<not> throttled (server 1)
      then (delivered (server 1), now', pacing lastRequestTime now @ [Fetch, Sleep 2000, Fetch])
      else (delivered (server 2), now',
            pacing lastRequestTime now @ [Fetch, Sleep 2000, Fetch, Sleep 4000, Fetch]))"
    by (simp add: fetchWithRateLimit_def Let_def retryLoop_from_start pacing_def)
  have ne: "fst (fetchWithRateLimit lastRequestTime now now' server) \<noteq> Inl MaxRetriesExceeded"
    unfolding eq by (simp add: delivered_not_exhausted)
  have resp: "\<exists>status body. fst (fetchWithRateLimit lastRequestTime now now' server) = Inr (status, body)"
    if "\<forall>n. server n \<noteq> NetworkFailure"
  proof -
    have "\<exists>status body. delivered (server n) = Inr (status, body)" for n
      using that by (cases "server n") (simp_all add: delivered_def)
    then show ?thesis unfolding eq by simp
  qed
  show ?thesis using eq ne resp by blast
qed

theorem fetchWithRateLimit_retry_policy_witness:
  "fetchWithRateLimit 0 10000 10001 alwaysThrottling =
     (Inr (429, Unparsable), 10001, [Fetch, Sleep 2000, Fetch, Sleep 4000, Fetch]) \<and>
   fetchWithRateLimit 9900 10000 10400 serverError =
     (Inr (500, Unparsable), 10400, [Sleep 400, Fetch])"
proof -
  have a: "\<forall>n. alwaysThrottling n \<noteq> NetworkFailure"
    by (simp add: alwaysThrottling_def)
  show ?thesis
    using fetchWithRateLimit_retry_policy [of 0 10000 10001 alwaysThrottling]
      fetchWithRateLimit_retry_policy [of 9900 10000 10400 serverError] a
    by (simp add: alwaysThrottling_def serverError_def throttled_def delivered_def pacing_def
        MIN_REQUEST_INTERVAL_def)
qed

end
